theory Spec2Isabelle
  imports Complex_Main "HOL-Library.Multiset" "HOL-Library.Sublist"
begin

section \<open>Data model\<close>

text \<open>
  The tables of the application. A row of \<open>inventory.Product\<close> carries its primary key and
  the company it belongs to; a \<open>UserProfile\<close> links the acting account to a company and a
  role. Python integers are unbounded (\<open>int\<close>), a Decimal price is a rational number.
\<close>

record product =
  pk :: nat
  company :: nat
  item_name :: string
  category :: string
  cost_price :: rat
  quantity :: int

record user_profile =
  profile_company :: nat
  role :: string

text \<open>
  The Product table with the counter its auto-increment key is drawn from.
\<close>

record db =
  products :: "product list"
  next_pk :: nat

text \<open>
  Modelled from the spec: the derived attribute \<open>Product.total_value\<close> is declared in
  \<open>inventory/models.py\<close>, which is not among the sources; section 3 of the
  specification gives it as \<open>cost_price * quantity\<close>.
\<close>

definition total_value :: "product \<Rightarrow> rat" where
  "total_value p = cost_price p * of_int (quantity p)"

subsection \<open>Requests and responses\<close>

record request =
  http_method :: string
  authenticated :: bool
  userprofile :: "user_profile option"
  GET :: "string \<rightharpoonup> string"
  POST :: "string \<rightharpoonup> string"
  FILES :: "string \<rightharpoonup> string"

datatype level = ErrorMsg | SuccessMsg

type_synonym message = "level \<times> string"

datatype form_obj =
  UnboundForm "product option"
| BoundForm "string \<rightharpoonup> string" "string \<rightharpoonup> string" "product option"

datatype ctx_value =
  CProducts "product list"
| CProduct product
| CProfile user_profile
| CStr string
| CNum rat
| CForm form_obj

datatype json_value = JBool bool | JInt int | JStr string | JNum rat

datatype exn = TypeError | ValueError | IntegrityError

datatype response =
  Redirect string
| Render string "(string \<times> ctx_value) list"
| JsonResponse "(string \<times> json_value) list"
| Http404
| Raised exn

text \<open>
  What a view leaves behind: the response, the notices queued with \<open>messages.error\<close> and
  \<open>messages.success\<close>, and the table after the request.
\<close>

record 's outcome =
  response :: response
  notices :: "message list"
  store :: 's

subsection \<open>The queries the views issue\<close>

definition filter_company :: "nat \<Rightarrow> product list \<Rightarrow> product list" where
  "filter_company c ps = filter (\<lambda>p. company p = c) ps"

definition objects_get :: "nat \<Rightarrow> nat \<Rightarrow> product list \<Rightarrow> product option" where
  "objects_get k c ps = find (\<lambda>p. pk p = k \<and> company p = c) ps"

text \<open>\<open>save()\<close> of a stored row is an update of the row with its key.\<close>

definition save_product :: "product \<Rightarrow> product list \<Rightarrow> product list" where
  "save_product p ps = map (\<lambda>r. if pk r = pk p then p else r) ps"

definition delete_product :: "product \<Rightarrow> product list \<Rightarrow> product list" where
  "delete_product p ps = filter (\<lambda>r. pk r \<noteq> pk p) ps"

text \<open>\<open>save()\<close> of a new row inserts it under the next key of the table.\<close>

definition insert_product :: "product \<Rightarrow> db \<Rightarrow> db" where
  "insert_product p d =
     d\<lparr>products := products d @ [p\<lparr>pk := next_pk d\<rparr>], next_pk := Suc (next_pk d)\<rparr>"

text \<open>
  \<open>icontains\<close>: the needle occurs in the text as a contiguous substring once both are
  folded to lower case (ASCII letters).
\<close>

definition lower_char :: "char \<Rightarrow> char" where
  "lower_char c =
     (let n = (of_char c :: nat) in if 65 \<le> n \<and> n \<le> 90 then char_of (n + 32) else c)"

definition icontains :: "string \<Rightarrow> string \<Rightarrow> bool" where
  "icontains needle text = sublist (map lower_char needle) (map lower_char text)"

definition login_required ::
    "(request \<Rightarrow> db \<Rightarrow> db outcome) \<Rightarrow> request \<Rightarrow> db \<Rightarrow> db outcome" where
  "login_required view req d =
     (if authenticated req then view req d
      else \<lparr>response = Redirect ''login'', notices = [], store = d\<rparr>)"

definition profile_missing :: "db \<Rightarrow> db outcome" where
  "profile_missing d =
     \<lparr>response = Redirect ''dashboard'',
      notices = [(ErrorMsg, ''User profile not found.'')], store = d\<rparr>"

section \<open>Stock endpoints\<close>

definition json_failure :: "string \<Rightarrow> db \<Rightarrow> db outcome" where
  "json_failure msg d =
     \<lparr>response = JsonResponse [(''success'', JBool False), (''error'', JStr msg)],
      notices = [], store = d\<rparr>"

text \<open>
  The JSON body of a successful stock change. \<open>get_display_quantity\<close> belongs to the
  model class and is passed in as \<open>disp\<close>; \<open>total_value\<close> is reported as the number
  that the source converts with \<open>float\<close>.
\<close>

definition json_stock :: "(product \<Rightarrow> string) \<Rightarrow> product \<Rightarrow> response" where
  "json_stock disp p =
     JsonResponse [(''success'', JBool True), (''new_quantity'', JInt (quantity p)),
       (''display_quantity'', JStr (disp p)), (''total_value'', JNum (total_value p))]"

definition increase_stock_view ::
    "(product \<Rightarrow> string) \<Rightarrow> nat \<Rightarrow> request \<Rightarrow> db \<Rightarrow> db outcome" where
  "increase_stock_view disp k req d =
     (if http_method req = ''POST'' then
        (case userprofile req of
           None \<Rightarrow> json_failure ''Product not found'' d
         | Some profile \<Rightarrow>
             (case objects_get k (profile_company profile) (products d) of
                None \<Rightarrow> json_failure ''Product not found'' d
              | Some product \<Rightarrow>
                  let product = product\<lparr>quantity := quantity product + 1\<rparr>
                  in \<lparr>response = json_stock disp product, notices = [],
                      store = d\<lparr>products := save_product product (products d)\<rparr>\<rparr>))
      else json_failure ''Invalid request'' d)"

definition decrease_stock_view ::
    "(product \<Rightarrow> string) \<Rightarrow> nat \<Rightarrow> request \<Rightarrow> db \<Rightarrow> db outcome" where
  "decrease_stock_view disp k req d =
     (if http_method req = ''POST'' then
        (case userprofile req of
           None \<Rightarrow> json_failure ''Product not found'' d
         | Some profile \<Rightarrow>
             (case objects_get k (profile_company profile) (products d) of
                None \<Rightarrow> json_failure ''Product not found'' d
              | Some product \<Rightarrow>
                  if quantity product > 0 then
                    let product = product\<lparr>quantity := quantity product - 1\<rparr>
                    in \<lparr>response = json_stock disp product, notices = [],
                        store = d\<lparr>products := save_product product (products d)\<rparr>\<rparr>
                  else \<lparr>response = json_stock disp product, notices = [], store = d\<rparr>))
      else json_failure ''Invalid request'' d)"

definition increase_stock ::
    "(product \<Rightarrow> string) \<Rightarrow> nat \<Rightarrow> request \<Rightarrow> db \<Rightarrow> db outcome" where
  "increase_stock disp k = login_required (increase_stock_view disp k)"

definition decrease_stock ::
    "(product \<Rightarrow> string) \<Rightarrow> nat \<Rightarrow> request \<Rightarrow> db \<Rightarrow> db outcome" where
  "decrease_stock disp k = login_required (decrease_stock_view disp k)"

section \<open>Listing, detail, add and delete\<close>

definition matches_search :: "string \<Rightarrow> product \<Rightarrow> bool" where
  "matches_search q p \<longleftrightarrow> icontains q (item_name p) \<or> icontains q (category p)"

definition get_param :: "(string \<rightharpoonup> string) \<Rightarrow> string \<Rightarrow> string" where
  "get_param m key = (case m key of None \<Rightarrow> [] | Some v \<Rightarrow> v)"

definition search_products :: "string \<Rightarrow> product list \<Rightarrow> product list" where
  "search_products search_query ps =
     (if search_query \<noteq> [] then filter (matches_search search_query) ps else ps)"

text \<open>
  \<open>order_by('cost_price')\<close> and \<open>order_by('-cost_price')\<close>; rows of equal price keep the
  order they had.
\<close>

definition order_products :: "string \<Rightarrow> product list \<Rightarrow> product list" where
  "order_products cost_filter ps =
     (if cost_filter = ''low'' then sort_key cost_price ps
      else if cost_filter = ''high'' then sort_key (\<lambda>p. - cost_price p) ps
      else ps)"

definition inventory_list_view :: "request \<Rightarrow> db \<Rightarrow> db outcome" where
  "inventory_list_view req d =
     (case userprofile req of
        None \<Rightarrow> profile_missing d
      | Some profile \<Rightarrow>
          let prods = filter_company (profile_company profile) (products d);
              search_query = get_param (GET req) ''search'';
              prods = search_products search_query prods;
              cost_filter = get_param (GET req) ''cost_filter'';
              prods = order_products cost_filter prods;
              total_inventory_value = sum_list (map total_value prods);
              context = [(''products'', CProducts prods), (''search_query'', CStr search_query),
                (''cost_filter'', CStr cost_filter), (''profile'', CProfile profile),
                (''total_inventory_value'', CNum total_inventory_value)]
          in \<lparr>response =
                (if role profile = ''business_owner''
                 then Render ''inventory/inventory_list.html'' context
                 else Render ''inventory/inventory_list_staff.html'' context),
              notices = [], store = d\<rparr>)"

definition inventory_list :: "request \<Rightarrow> db \<Rightarrow> db outcome" where
  "inventory_list = login_required inventory_list_view"

text \<open>
  \<open>ProductForm\<close> is declared in \<open>inventory/forms.py\<close>, which is not among the sources.
  The views take it as the parameter \<open>form\<close>: from the posted data, the uploaded files
  and the instance being edited (if any) it gives \<open>None\<close> when \<open>is_valid()\<close> fails and
  otherwise the instance that \<open>save(commit=False)\<close> builds. Nothing is assumed about
  which fields it copies from the input.
\<close>

type_synonym product_form =
  "(string \<rightharpoonup> string) \<Rightarrow> (string \<rightharpoonup> string) \<Rightarrow> product option \<Rightarrow> product option"

definition quoted :: "string \<Rightarrow> string" where
  "quoted s = [CHR 0x22] @ s @ [CHR 0x22]"

definition detail_page :: "form_obj \<Rightarrow> product \<Rightarrow> user_profile \<Rightarrow> response" where
  "detail_page f product profile =
     (let context = [(''form'', CForm f), (''product'', CProduct product),
            (''profile'', CProfile profile)]
      in if role profile = ''business_owner''
         then Render ''inventory/product_detail.html'' context
         else Render ''inventory/product_detail_staff.html'' context)"

text \<open>
  A model form edits the fields of the instance it is bound to; the primary key is not
  among them, so the saved row keeps the key of \<open>product\<close>.
\<close>

definition product_detail_view :: "product_form \<Rightarrow> nat \<Rightarrow> request \<Rightarrow> db \<Rightarrow> db outcome" where
  "product_detail_view form k req d =
     (case userprofile req of
        None \<Rightarrow> profile_missing d
      | Some profile \<Rightarrow>
          (case objects_get k (profile_company profile) (products d) of
             None \<Rightarrow> \<lparr>response = Http404, notices = [], store = d\<rparr>
           | Some product \<Rightarrow>
               if http_method req = ''POST'' then
                 if role profile \<noteq> ''business_owner'' then
                   \<lparr>response = Redirect ''inventory_list'',
                    notices = [(ErrorMsg,
                      ''Access denied. Only business owners can edit products.'')],
                    store = d\<rparr>
                 else
                   (case form (POST req) (FILES req) (Some product) of
                      Some edited \<Rightarrow>
                        let edited = edited\<lparr>pk := pk product\<rparr>
                        in \<lparr>response = Redirect ''inventory_list'',
                            notices = [(SuccessMsg, ''Product '' @ quoted (item_name edited)
                              @ '' updated successfully!'')],
                            store = d\<lparr>products := save_product edited (products d)\<rparr>\<rparr>
                    | None \<Rightarrow>
                        \<lparr>response = detail_page
                           (BoundForm (POST req) (FILES req) (Some product)) product profile,
                         notices = [], store = d\<rparr>)
               else
                 \<lparr>response = detail_page (UnboundForm (Some product)) product profile,
                  notices = [], store = d\<rparr>))"

definition product_detail :: "product_form \<Rightarrow> nat \<Rightarrow> request \<Rightarrow> db \<Rightarrow> db outcome" where
  "product_detail form k = login_required (product_detail_view form k)"

definition add_page :: "form_obj \<Rightarrow> user_profile \<Rightarrow> response" where
  "add_page f profile =
     Render ''inventory/product_add.html'' [(''form'', CForm f), (''profile'', CProfile profile)]"

definition product_add_view :: "product_form \<Rightarrow> request \<Rightarrow> db \<Rightarrow> db outcome" where
  "product_add_view form req d =
     (case userprofile req of
        None \<Rightarrow> profile_missing d
      | Some profile \<Rightarrow>
          if http_method req = ''POST'' then
            (case form (POST req) (FILES req) None of
               Some product \<Rightarrow>
                 let product = product\<lparr>company := profile_company profile\<rparr>
                 in \<lparr>response = Redirect ''inventory_list'',
                     notices = [(SuccessMsg, ''Product '' @ quoted (item_name product)
                       @ '' added successfully!'')],
                     store = insert_product product d\<rparr>
             | None \<Rightarrow>
                 \<lparr>response = add_page (BoundForm (POST req) (FILES req) None) profile,
                  notices = [], store = d\<rparr>)
          else \<lparr>response = add_page (UnboundForm None) profile, notices = [], store = d\<rparr>)"

definition product_add :: "product_form \<Rightarrow> request \<Rightarrow> db \<Rightarrow> db outcome" where
  "product_add form = login_required (product_add_view form)"

definition product_not_found :: "db \<Rightarrow> db outcome" where
  "product_not_found d =
     \<lparr>response = Redirect ''inventory_list'',
      notices = [(ErrorMsg, ''Product not found.'')], store = d\<rparr>"

definition product_delete_view :: "nat \<Rightarrow> request \<Rightarrow> db \<Rightarrow> db outcome" where
  "product_delete_view k req d =
     (case userprofile req of
        None \<Rightarrow> product_not_found d
      | Some profile \<Rightarrow>
          (case objects_get k (profile_company profile) (products d) of
             None \<Rightarrow> product_not_found d
           | Some product \<Rightarrow>
               if role profile \<noteq> ''business_owner'' then
                 \<lparr>response = Redirect ''inventory_list'',
                  notices = [(ErrorMsg,
                    ''Access denied. Only business owners can delete products.'')],
                  store = d\<rparr>
               else if http_method req = ''POST'' then
                 \<lparr>response = Redirect ''inventory_list'',
                  notices = [(SuccessMsg, ''Product '' @ quoted (item_name product)
                    @ '' deleted successfully!'')],
                  store = d\<lparr>products := delete_product product (products d)\<rparr>\<rparr>
               else
                 \<lparr>response = Render ''inventory/product_delete.html''
                    [(''product'', CProduct product), (''profile'', CProfile profile)],
                  notices = [], store = d\<rparr>))"

definition product_delete :: "nat \<Rightarrow> request \<Rightarrow> db \<Rightarrow> db outcome" where
  "product_delete k = login_required (product_delete_view k)"

section \<open>Registration\<close>

record user =
  username :: string
  password :: string

text \<open>
  \<open>User.objects.filter(username=username).exists()\<close>. A field of the form that was not
  posted is read as \<open>None\<close>, and no stored account has a null user name.
\<close>

definition username_exists :: "string option \<Rightarrow> user list \<Rightarrow> bool" where
  "username_exists u us =
     (case u of None \<Rightarrow> False | Some n \<Rightarrow> list_ex (\<lambda>a. username a = n) us)"

text \<open>
  \<open>User.objects.create_user\<close> is the framework's. It refuses a user name that is not set
  (\<open>None\<close> or the empty string) with \<open>ValueError\<close>; it then normalises the name (Unicode
  NFKC, the parameter \<open>nfkc\<close>) and stores one account under the normalised name with the
  hashed password (the parameter \<open>hasher\<close>). The table's unique constraint refuses a
  normalised name that is already stored with \<open>IntegrityError\<close>.
\<close>

definition create_user ::
    "(string \<Rightarrow> string) \<Rightarrow> (string \<Rightarrow> string) \<Rightarrow> string option \<Rightarrow> string \<Rightarrow> user list
      \<Rightarrow> exn + user list" where
  "create_user hasher nfkc u pw us =
     (case u of
        None \<Rightarrow> Inl ValueError
      | Some n \<Rightarrow>
          if n = [] then Inl ValueError
          else
            let stored = nfkc n
            in if list_ex (\<lambda>a. username a = stored) us then Inl IntegrityError
               else Inr (us @ [\<lparr>username = stored, password = hasher pw\<rparr>]))"

definition register_error :: "string \<Rightarrow> user list \<Rightarrow> user list outcome" where
  "register_error msg us =
     \<lparr>response = Redirect ''accounts:register'', notices = [(ErrorMsg, msg)], store = us\<rparr>"

text \<open>\<open>len(None)\<close> raises \<open>TypeError\<close>; the exception leaves the view.\<close>

definition register_view ::
    "(string \<Rightarrow> string) \<Rightarrow> (string \<Rightarrow> string) \<Rightarrow> request \<Rightarrow> user list
      \<Rightarrow> user list outcome" where
  "register_view hasher nfkc req us =
     (if http_method req = ''POST'' then
        let username = POST req ''username'';
            password1 = POST req ''password1'';
            password2 = POST req ''password2''
        in if username_exists username us then
             register_error ''Username already exists. Please choose another.'' us
           else
             (case password1 of
                None \<Rightarrow> \<lparr>response = Raised TypeError, notices = [], store = us\<rparr>
              | Some p1 \<Rightarrow>
                  if length p1 < 8 then
                    register_error ''Password must be at least 8 characters long.'' us
                  else if password1 \<noteq> password2 then
                    register_error ''Passwords do not match.'' us
                  else
                    (case create_user hasher nfkc username p1 us of
                       Inl e \<Rightarrow> \<lparr>response = Raised e, notices = [], store = us\<rparr>
                     | Inr us' \<Rightarrow>
                         \<lparr>response = Redirect ''accounts:login'',
                          notices = [(SuccessMsg,
                            ''Account created successfully! You can now log in.'')],
                          store = us'\<rparr>))
      else \<lparr>response = Render ''accounts/register.html'' [], notices = [], store = us\<rparr>)"

section \<open>Well-formed tables\<close>

text \<open>
  A well-formed table: primary keys are unique and were all drawn from the counter.
\<close>

definition wf_db :: "db \<Rightarrow> bool" where
  "wf_db d \<longleftrightarrow> distinct (map pk (products d)) \<and> list_all (\<lambda>p. pk p < next_pk d) (products d)"

section \<open>The inventory operations as one family\<close>

text \<open>
  The seven operations of the inventory: listing, detail (a GET views, a POST edits), add,
  the two stock endpoints and delete, each with the primary key its URL carries.
\<close>

datatype operation =
  OpList
| OpDetail nat
| OpAdd
| OpIncrease nat
| OpDecrease nat
| OpDelete nat

fun inventory_op ::
    "product_form \<Rightarrow> (product \<Rightarrow> string) \<Rightarrow> operation \<Rightarrow> request \<Rightarrow> db \<Rightarrow> db outcome" where
  "inventory_op form disp OpList = inventory_list"
| "inventory_op form disp (OpDetail k) = product_detail form k"
| "inventory_op form disp OpAdd = product_add form"
| "inventory_op form disp (OpIncrease k) = increase_stock disp k"
| "inventory_op form disp (OpDecrease k) = decrease_stock disp k"
| "inventory_op form disp (OpDelete k) = product_delete k"

fun target :: "operation \<Rightarrow> nat option" where
  "target OpList = None"
| "target (OpDetail k) = Some k"
| "target OpAdd = None"
| "target (OpIncrease k) = Some k"
| "target (OpDecrease k) = Some k"
| "target (OpDelete k) = Some k"

text \<open>The table as the acting company alone would see it, and the rows of everyone else.\<close>

definition scoped :: "nat \<Rightarrow> db \<Rightarrow> db" where
  "scoped c d = d\<lparr>products := filter (\<lambda>p. company p = c) (products d)\<rparr>"

definition foreign_rows :: "nat \<Rightarrow> db \<Rightarrow> product list" where
  "foreign_rows c d = filter (\<lambda>p. company p \<noteq> c) (products d)"

definition without_pk :: "nat \<Rightarrow> db \<Rightarrow> db" where
  "without_pk k d = d\<lparr>products := filter (\<lambda>p. pk p \<noteq> k) (products d)\<rparr>"

text \<open>
  A view is isolated on a table for a company when running it on the whole table and on
  the company's rows alone gives the same response and the same notices, draws the same
  keys, and leaves the rows of all other companies as they were next to what the second
  run leaves.
\<close>

definition isolated :: "nat \<Rightarrow> (db \<Rightarrow> db outcome) \<Rightarrow> db \<Rightarrow> bool" where
  "isolated c view d \<longleftrightarrow>
     response (view d) = response (view (scoped c d))
   \<and> notices (view d) = notices (view (scoped c d))
   \<and> mset (products (store (view d)))
       = mset (foreign_rows c d) + mset (products (store (view (scoped c d))))
   \<and> next_pk (store (view d)) = next_pk (store (view (scoped c d)))"

text \<open>The table after \<open>n\<close> calls of the same request, one after the other.\<close>

definition repeat_calls :: "(db \<Rightarrow> db outcome) \<Rightarrow> nat \<Rightarrow> db \<Rightarrow> db" where
  "repeat_calls view n d = ((\<lambda>s. store (view s)) ^^ n) d"

definition context_of :: "response \<Rightarrow> (string \<times> ctx_value) list" where
  "context_of r = (case r of Render t ctx \<Rightarrow> ctx | _ \<Rightarrow> [])"

definition json_of :: "response \<Rightarrow> (string \<times> json_value) list" where
  "json_of r = (case r of JsonResponse body \<Rightarrow> body | _ \<Rightarrow> [])"

section \<open>Sample data\<close>

definition widget :: product where
  "widget = \<lparr>pk = 1, company = 1, item_name = ''Widget'', category = ''Parts'',
     cost_price = 5 / 2, quantity = 4\<rparr>"

definition bolt :: product where
  "bolt = \<lparr>pk = 2, company = 1, item_name = ''Bolt'', category = ''Widgets'',
     cost_price = 1 / 2, quantity = 10\<rparr>"

definition gadget :: product where
  "gadget = \<lparr>pk = 3, company = 1, item_name = ''Gadget'', category = ''Tools'',
     cost_price = 7, quantity = 0\<rparr>"

definition rival :: product where
  "rival = \<lparr>pk = 4, company = 2, item_name = ''Widget'', category = ''Parts'',
     cost_price = 3, quantity = 5\<rparr>"

definition sample_db :: db where
  "sample_db = \<lparr>products = [widget, bolt, gadget, rival], next_pk = 5\<rparr>"

definition owner :: user_profile where
  "owner = \<lparr>profile_company = 1, role = ''business_owner''\<rparr>"

definition staff :: user_profile where
  "staff = \<lparr>profile_company = 1, role = ''staff''\<rparr>"

definition request_of ::
    "string \<Rightarrow> user_profile option \<Rightarrow> (string \<times> string) list \<Rightarrow> (string \<times> string) list \<Rightarrow> request" where
  "request_of m prof get post =
     \<lparr>http_method = m, authenticated = True, userprofile = prof,
      GET = map_of get, POST = map_of post, FILES = Map.empty\<rparr>"

text \<open>A form that accepts every submission and reads all its fields from the input.\<close>

definition sample_form :: product_form where
  "sample_form post files inst =
     Some \<lparr>pk = 0, company = 2, item_name = get_param post ''item_name'',
       category = get_param post ''category'', cost_price = 1, quantity = 1\<rparr>"

definition sample_disp :: "product \<Rightarrow> string" where
  "sample_disp p = (if quantity p = 0 then ''Out of stock'' else ''In stock'')"

section \<open>Facts about the queries\<close>

lemma objects_get_save:
  "objects_get k c ps = Some p \<Longrightarrow> pk p' = k \<Longrightarrow> company p' = c \<Longrightarrow>
   objects_get k c (save_product p' ps) = Some p'"
  unfolding objects_get_def save_product_def
  by (induction ps) (auto split: if_splits)

lemma objects_get_SomeD:
  "objects_get k c ps = Some p \<Longrightarrow> p \<in> set ps \<and> pk p = k \<and> company p = c"
  unfolding objects_get_def by (auto simp: find_Some_iff)

lemma save_product_other:
  "filter (\<lambda>r. pk r \<noteq> pk p) (save_product p ps) = filter (\<lambda>r. pk r \<noteq> pk p) ps"
  unfolding save_product_def by (induction ps) auto

lemma save_product_twice:
  "pk p1 = pk p2 \<Longrightarrow> save_product p2 (save_product p1 ps) = save_product p2 ps"
  unfolding save_product_def by (induction ps) auto

lemma save_product_absent:
  "\<forall>r\<in>set ps. pk r \<noteq> pk p \<Longrightarrow> save_product p ps = ps"
  unfolding save_product_def by (induction ps) auto

lemma save_product_same:
  "distinct (map pk ps) \<Longrightarrow> p \<in> set ps \<Longrightarrow> save_product p ps = ps"
proof (induction ps)
  case Nil
  then show ?case by simp
next
  case (Cons a ps)
  show ?case
  proof (cases "a = p")
    case True
    with Cons.prems have "\<forall>r\<in>set ps. pk r \<noteq> pk p" by (auto simp: image_iff)
    then have "save_product p ps = ps" by (rule save_product_absent)
    with True show ?thesis by (simp add: save_product_def)
  next
    case False
    with Cons.prems have "p \<in> set ps" and "pk a \<noteq> pk p" by (auto simp: image_iff)
    with Cons show ?thesis by (simp add: save_product_def)
  qed
qed

lemma set_quantity_get:
  assumes "objects_get k c ps = Some p"
  shows "objects_get k c (save_product (p\<lparr>quantity := q\<rparr>) ps) = Some (p\<lparr>quantity := q\<rparr>)"
  using assms objects_get_SomeD[OF assms] by (simp add: objects_get_save)

lemma increase_stock_set:
  assumes "authenticated req" and "http_method req = ''POST''"
    and "userprofile req = Some prof"
    and "objects_get k (profile_company prof) (products d) = Some p"
  shows "store (increase_stock disp k req (d\<lparr>products := save_product (p\<lparr>quantity := q\<rparr>) (products d)\<rparr>))
       = d\<lparr>products := save_product (p\<lparr>quantity := q + 1\<rparr>) (products d)\<rparr>"
  using assms set_quantity_get[OF assms(4), of q]
  by (simp add: increase_stock_def login_required_def increase_stock_view_def save_product_twice Let_def)

lemma decrease_stock_set:
  assumes "authenticated req" and "http_method req = ''POST''"
    and "userprofile req = Some prof"
    and "objects_get k (profile_company prof) (products d) = Some p"
    and "0 \<le> q"
  shows "store (decrease_stock disp k req (d\<lparr>products := save_product (p\<lparr>quantity := q + 1\<rparr>) (products d)\<rparr>))
       = d\<lparr>products := save_product (p\<lparr>quantity := q\<rparr>) (products d)\<rparr>"
  using assms set_quantity_get[OF assms(4), of "q + 1"]
  by (simp add: decrease_stock_def login_required_def decrease_stock_view_def save_product_twice Let_def)

lemma increase_stock_repeat:
  assumes "authenticated req" and "http_method req = ''POST''"
    and "userprofile req = Some prof"
    and "objects_get k (profile_company prof) (products d) = Some p"
  shows "repeat_calls (increase_stock disp k req) n
           (d\<lparr>products := save_product (p\<lparr>quantity := q\<rparr>) (products d)\<rparr>)
       = d\<lparr>products := save_product (p\<lparr>quantity := q + int n\<rparr>) (products d)\<rparr>"
proof (induction n)
  case 0
  show ?case by (simp add: repeat_calls_def)
next
  case (Suc n)
  have "repeat_calls (increase_stock disp k req) (Suc n)
           (d\<lparr>products := save_product (p\<lparr>quantity := q\<rparr>) (products d)\<rparr>)
      = store (increase_stock disp k req
           (d\<lparr>products := save_product (p\<lparr>quantity := q + int n\<rparr>) (products d)\<rparr>))"
    using Suc.IH by (simp add: repeat_calls_def)
  also have "\<dots> = d\<lparr>products := save_product (p\<lparr>quantity := q + int n + 1\<rparr>) (products d)\<rparr>"
    by (rule increase_stock_set[OF assms])
  finally show ?case by (simp add: ac_simps)
qed

lemma decrease_stock_repeat:
  assumes "authenticated req" and "http_method req = ''POST''"
    and "userprofile req = Some prof"
    and "objects_get k (profile_company prof) (products d) = Some p"
    and "0 \<le> q"
  shows "repeat_calls (decrease_stock disp k req) n
           (d\<lparr>products := save_product (p\<lparr>quantity := q + int n\<rparr>) (products d)\<rparr>)
       = d\<lparr>products := save_product (p\<lparr>quantity := q\<rparr>) (products d)\<rparr>"
proof (induction n)
  case 0
  show ?case by (simp add: repeat_calls_def)
next
  case (Suc n)
  have "0 \<le> q + int n" using assms(5) by simp
  then have step: "store (decrease_stock disp k req
           (d\<lparr>products := save_product (p\<lparr>quantity := q + int n + 1\<rparr>) (products d)\<rparr>))
      = d\<lparr>products := save_product (p\<lparr>quantity := q + int n\<rparr>) (products d)\<rparr>"
    by (rule decrease_stock_set[OF assms(1-4)])
  have eq: "q + int (Suc n) = q + int n + 1" by simp
  have "repeat_calls (decrease_stock disp k req) (Suc n)
           (d\<lparr>products := save_product (p\<lparr>quantity := q + int (Suc n)\<rparr>) (products d)\<rparr>)
      = repeat_calls (decrease_stock disp k req) n
          (store (decrease_stock disp k req
            (d\<lparr>products := save_product (p\<lparr>quantity := q + int n + 1\<rparr>) (products d)\<rparr>)))"
    unfolding eq repeat_calls_def by (simp only: funpow_Suc_right o_apply)
  also have "\<dots> = repeat_calls (decrease_stock disp k req) n
           (d\<lparr>products := save_product (p\<lparr>quantity := q + int n\<rparr>) (products d)\<rparr>)"
    by (simp only: step)
  finally show ?case using Suc.IH by simp
qed

lemma set_quantity_id:
  assumes "wf_db d" and "objects_get k c (products d) = Some p"
  shows "d\<lparr>products := save_product (p\<lparr>quantity := quantity p\<rparr>) (products d)\<rparr> = d"
  using assms objects_get_SomeD[OF assms(2)] by (simp add: wf_db_def save_product_same)


section \<open>Stock changes\<close>

text \<open>
  C2. A POST to \<open>decrease_stock\<close> for a product \<open>p\<close> of the acting profile's company
  leaves the product with quantity \<open>quantity p - 1\<close> when \<open>quantity p > 0\<close> and with its
  quantity unchanged otherwise; at quantity 0 the table is not written at all. In both
  cases the body reports \<open>success: true\<close> with the new quantity, a quantity that was not
  negative stays non-negative, and no row with another key changes.
\<close>

theorem decrease_stock_clamps:
  assumes "authenticated req" and "http_method req = ''POST''"
    and "userprofile req = Some prof"
    and "objects_get k (profile_company prof) (products d) = Some p"
  shows "let q' = (if quantity p > 0 then quantity p - 1 else quantity p);
             out = decrease_stock disp k req d
         in objects_get k (profile_company prof) (products (store out))
              = Some (p\<lparr>quantity := q'\<rparr>)
          \<and> response out = json_stock disp (p\<lparr>quantity := q'\<rparr>)
          \<and> map_of (json_of (response out)) ''success'' = Some (JBool True)
          \<and> map_of (json_of (response out)) ''new_quantity'' = Some (JInt q')
          \<and> (quantity p = 0 \<longrightarrow> q' = 0 \<and> store out = d)
          \<and> (0 \<le> quantity p \<longrightarrow> 0 \<le> q')
          \<and> filter (\<lambda>r. pk r \<noteq> k) (products (store out))
              = filter (\<lambda>r. pk r \<noteq> k) (products d)"
  using assms objects_get_SomeD[OF assms(4)]
  by (auto simp: decrease_stock_def login_required_def decrease_stock_view_def Let_def
      json_stock_def json_of_def objects_get_save
      save_product_other[of "p\<lparr>quantity := quantity p - 1\<rparr>", simplified])

theorem decrease_stock_clamps_witness:
  "store (decrease_stock sample_disp 3 (request_of ''POST'' (Some staff) [] []) sample_db)
     = sample_db
   \<and> map_of (json_of (response
        (decrease_stock sample_disp 3 (request_of ''POST'' (Some staff) [] []) sample_db)))
        ''success'' = Some (JBool True)
   \<and> map_of (json_of (response
        (decrease_stock sample_disp 3 (request_of ''POST'' (Some staff) [] []) sample_db)))
        ''new_quantity'' = Some (JInt 0)"
proof -
  let ?req = "request_of ''POST'' (Some staff) [] []"
  have req: "authenticated ?req" "http_method ?req = ''POST''" "userprofile ?req = Some staff"
    by (simp_all add: request_of_def)
  have row: "objects_get 3 (profile_company staff) (products sample_db) = Some gadget"
    by (simp add: staff_def sample_db_def objects_get_def widget_def bolt_def gadget_def)
  have "quantity gadget = 0"
    by (simp add: gadget_def)
  with decrease_stock_clamps[OF req row, of sample_disp] show ?thesis
    by (simp add: Let_def json_of_def json_stock_def)
qed

text \<open>
  C7. For a product of the acting profile's company whose quantity is not negative,
  \<open>n\<close> POSTs to \<open>increase_stock\<close> raise the quantity by exactly \<open>n\<close>, and \<open>n\<close> POSTs to
  \<open>decrease_stock\<close> after them give back the table as it was.
\<close>

theorem stock_round_trip:
  assumes "wf_db d" and "authenticated req" and "http_method req = ''POST''"
    and "userprofile req = Some prof"
    and "objects_get k (profile_company prof) (products d) = Some p"
    and "0 \<le> quantity p"
  shows "objects_get k (profile_company prof)
           (products (repeat_calls (increase_stock disp k req) n d))
         = Some (p\<lparr>quantity := quantity p + int n\<rparr>)
       \<and> repeat_calls (decrease_stock disp k req) n
           (repeat_calls (increase_stock disp k req) n d) = d"
proof -
  let ?at = "\<lambda>q. d\<lparr>products := save_product (p\<lparr>quantity := q\<rparr>) (products d)\<rparr>"
  have start: "?at (quantity p) = d"
    by (rule set_quantity_id[OF assms(1) assms(5)])
  have up: "repeat_calls (increase_stock disp k req) n (?at (quantity p)) = ?at (quantity p + int n)"
    by (rule increase_stock_repeat[OF assms(2-5)])
  have down: "repeat_calls (decrease_stock disp k req) n (?at (quantity p + int n)) = ?at (quantity p)"
    by (rule decrease_stock_repeat[OF assms(2-6)])
  have "objects_get k (profile_company prof) (products (?at (quantity p + int n)))
      = Some (p\<lparr>quantity := quantity p + int n\<rparr>)"
    using set_quantity_get[OF assms(5)] by simp
  with start up down show ?thesis by simp
qed


theorem stock_round_trip_witness:
  "objects_get 1 1 (products (repeat_calls
       (increase_stock sample_disp 1 (request_of ''POST'' (Some staff) [] [])) 2 sample_db))
     = Some (widget\<lparr>quantity := 6\<rparr>)
   \<and> repeat_calls (decrease_stock sample_disp 1 (request_of ''POST'' (Some staff) [] [])) 2
       (repeat_calls (increase_stock sample_disp 1 (request_of ''POST'' (Some staff) [] [])) 2
          sample_db) = sample_db"
proof -
  let ?req = "request_of ''POST'' (Some staff) [] []"
  have req: "authenticated ?req" "http_method ?req = ''POST''" "userprofile ?req = Some staff"
    by (simp_all add: request_of_def)
  have wf: "wf_db sample_db"
    by (simp add: wf_db_def sample_db_def widget_def bolt_def gadget_def rival_def)
  have row: "objects_get 1 (profile_company staff) (products sample_db) = Some widget"
    by (simp add: staff_def sample_db_def objects_get_def widget_def)
  have q: "0 \<le> quantity widget" "quantity widget + int 2 = 6" "profile_company staff = 1"
    by (simp_all add: widget_def staff_def)
  from stock_round_trip[OF wf req row q(1), of sample_disp 2] show ?thesis
    by (simp only: q)
qed


section \<open>Well-formed tables stay well-formed\<close>

text \<open>
  Unique keys below the counter are an invariant of every inventory operation: an update
  keeps the keys, a delete removes one, and an insert draws the counter and advances it.
\<close>

lemma map_pk_save_product: "map pk (save_product p ps) = map pk ps"
  unfolding save_product_def by (induction ps) auto

lemma wf_db_save:
  "wf_db d \<Longrightarrow> wf_db (d\<lparr>products := save_product p (products d)\<rparr>)"
proof -
  assume wf: "wf_db d"
  have "pk ` set (save_product p (products d)) = pk ` set (products d)"
    by (metis map_pk_save_product set_map)
  then have "\<forall>r\<in>set (save_product p (products d)). pk r \<in> pk ` set (products d)"
    by blast
  with wf show ?thesis
    by (auto simp: wf_db_def map_pk_save_product list_all_iff)
qed

lemma wf_db_delete:
  "wf_db d \<Longrightarrow> wf_db (d\<lparr>products := delete_product p (products d)\<rparr>)"
  by (auto simp: wf_db_def delete_product_def list_all_iff distinct_map_filter)

lemma wf_db_insert: "wf_db d \<Longrightarrow> wf_db (insert_product p d)"
  by (auto simp: wf_db_def insert_product_def list_all_iff less_Suc_eq)

lemma wf_db_login_required:
  "(wf_db d \<Longrightarrow> wf_db (store (view req d))) \<Longrightarrow> wf_db d \<Longrightarrow>
   wf_db (store (login_required view req d))"
  by (simp add: login_required_def)

lemma wf_db_inventory_op:
  assumes "wf_db d"
  shows "wf_db (store (inventory_op form disp op req d))"
proof (cases op)
  case OpList
  with assms show ?thesis
    by (simp add: inventory_list_def login_required_def inventory_list_view_def
        profile_missing_def Let_def split: option.splits)
next
  case (OpDetail k)
  with assms wf_db_save[OF assms] show ?thesis
    by (simp add: product_detail_def login_required_def product_detail_view_def
        profile_missing_def Let_def split: option.splits)
next
  case OpAdd
  with assms wf_db_insert[OF assms] show ?thesis
    by (simp add: product_add_def login_required_def product_add_view_def
        profile_missing_def Let_def split: option.splits)
next
  case (OpIncrease k)
  with assms wf_db_save[OF assms] show ?thesis
    by (simp add: increase_stock_def login_required_def increase_stock_view_def
        json_failure_def Let_def split: option.splits)
next
  case (OpDecrease k)
  with assms wf_db_save[OF assms] show ?thesis
    by (simp add: decrease_stock_def login_required_def decrease_stock_view_def
        json_failure_def Let_def split: option.splits)
next
  case (OpDelete k)
  with assms wf_db_delete[OF assms] show ?thesis
    by (simp add: product_delete_def login_required_def product_delete_view_def
        product_not_found_def split: option.splits)
qed

section \<open>Tenant isolation\<close>

text \<open>
  Rows are found, updated and deleted through the key and the company of the acting profile.
  On a table with unique keys a row found this way is the only row with its key, so an
  update or a delete touches no row of another company.
\<close>

lemma objects_get_scoped:
  "objects_get k c (filter (\<lambda>p. company p = c) ps) = objects_get k c ps"
  unfolding objects_get_def by (induction ps) auto

lemma mset_foreign_own:
  "mset (filter (\<lambda>p. company p \<noteq> c) ps) + mset (filter (\<lambda>p. company p = c) ps) = mset ps"
  by (induction ps) (auto simp del: mset_filter)

lemma mset_save_product_scoped:
  "\<forall>r\<in>set ps. pk r = pk p' \<longrightarrow> company r = c \<Longrightarrow>
   mset (save_product p' ps)
     = mset (filter (\<lambda>r. company r \<noteq> c) ps)
       + mset (save_product p' (filter (\<lambda>r. company r = c) ps))"
  unfolding save_product_def by (induction ps) (auto simp del: mset_filter)

lemma mset_delete_product_scoped:
  "\<forall>r\<in>set ps. pk r = pk p \<longrightarrow> company r = c \<Longrightarrow>
   mset (delete_product p ps)
     = mset (filter (\<lambda>r. company r \<noteq> c) ps)
       + mset (delete_product p (filter (\<lambda>r. company r = c) ps))"
  unfolding delete_product_def by (induction ps) (auto simp del: mset_filter)

lemma key_owner:
  "distinct (map pk ps) \<Longrightarrow> p \<in> set ps \<Longrightarrow> r \<in> set ps \<Longrightarrow> pk r = pk p \<Longrightarrow> r = p"
  by (meson distinct_map inj_onD)

lemma found_key_company:
  assumes "wf_db d" and "objects_get k c (products d) = Some p" and "pk p' = k"
  shows "\<forall>r\<in>set (products d). pk r = pk p' \<longrightarrow> company r = c"
  using assms objects_get_SomeD[OF assms(2)] key_owner[of "products d" p]
  by (auto simp: wf_db_def)

lemma isolated_unchanged:
  assumes "\<And>s. store (view s) = s"
    and "response (view d) = response (view (scoped c d))"
    and "notices (view d) = notices (view (scoped c d))"
  shows "isolated c view d"
  using assms
  by (simp add: isolated_def scoped_def foreign_rows_def mset_foreign_own del: mset_filter)

lemma isolated_login_required:
  assumes "isolated c (view req) d"
  shows "isolated c (login_required view req) d"
  using assms
  by (simp add: isolated_def login_required_def scoped_def foreign_rows_def mset_foreign_own
      del: mset_filter)

lemma isolated_list:
  assumes "userprofile req = Some prof"
  shows "isolated (profile_company prof) (inventory_list_view req) d"
  using assms
  by (simp add: isolated_def inventory_list_view_def scoped_def foreign_rows_def
      filter_company_def Let_def mset_foreign_own del: mset_filter)

lemma isolated_add:
  assumes "userprofile req = Some prof"
  shows "isolated (profile_company prof) (product_add_view form req) d"
  using assms
  by (simp add: isolated_def product_add_view_def scoped_def foreign_rows_def
      insert_product_def Let_def mset_foreign_own del: mset_filter split: option.splits)


lemma mset_save_found:
  assumes "wf_db d" and "objects_get k c (products d) = Some p" and "pk p' = pk p"
  shows "mset (save_product p' (products d))
     = mset (filter (\<lambda>r. company r \<noteq> c) (products d))
       + mset (save_product p' (filter (\<lambda>r. company r = c) (products d)))"
  using found_key_company[OF assms(1,2), of p'] objects_get_SomeD[OF assms(2)] assms(3)
  by (intro mset_save_product_scoped) simp

lemma mset_delete_found:
  assumes "wf_db d" and "objects_get k c (products d) = Some p"
  shows "mset (delete_product p (products d))
     = mset (filter (\<lambda>r. company r \<noteq> c) (products d))
       + mset (delete_product p (filter (\<lambda>r. company r = c) (products d)))"
  using found_key_company[OF assms(1,2), of p] objects_get_SomeD[OF assms(2)]
  by (intro mset_delete_product_scoped) simp

lemma isolated_detail:
  assumes "wf_db d" and "userprofile req = Some prof"
  shows "isolated (profile_company prof) (product_detail_view form k req) d"
proof (cases "objects_get k (profile_company prof) (products d)")
  case None
  with assms(2) show ?thesis
    by (simp add: isolated_def product_detail_view_def scoped_def foreign_rows_def
        objects_get_scoped mset_foreign_own del: mset_filter)
next
  case (Some p)
  with assms(2) show ?thesis
    by (simp add: isolated_def product_detail_view_def scoped_def foreign_rows_def
        objects_get_scoped Let_def mset_foreign_own mset_save_found[OF assms(1) Some]
        del: mset_filter split: option.splits)
qed

lemma isolated_increase:
  assumes "wf_db d" and "userprofile req = Some prof"
  shows "isolated (profile_company prof) (increase_stock_view disp k req) d"
proof (cases "objects_get k (profile_company prof) (products d)")
  case None
  with assms(2) show ?thesis
    by (simp add: isolated_def increase_stock_view_def json_failure_def scoped_def
        foreign_rows_def objects_get_scoped mset_foreign_own del: mset_filter)
next
  case (Some p)
  with assms(2) show ?thesis
    by (simp add: isolated_def increase_stock_view_def json_failure_def scoped_def
        foreign_rows_def objects_get_scoped Let_def mset_foreign_own
        mset_save_found[OF assms(1) Some] del: mset_filter)
qed

lemma isolated_decrease:
  assumes "wf_db d" and "userprofile req = Some prof"
  shows "isolated (profile_company prof) (decrease_stock_view disp k req) d"
proof (cases "objects_get k (profile_company prof) (products d)")
  case None
  with assms(2) show ?thesis
    by (simp add: isolated_def decrease_stock_view_def json_failure_def scoped_def
        foreign_rows_def objects_get_scoped mset_foreign_own del: mset_filter)
next
  case (Some p)
  with assms(2) show ?thesis
    by (simp add: isolated_def decrease_stock_view_def json_failure_def scoped_def
        foreign_rows_def objects_get_scoped Let_def mset_foreign_own
        mset_save_found[OF assms(1) Some] del: mset_filter)
qed

lemma isolated_delete:
  assumes "wf_db d" and "userprofile req = Some prof"
  shows "isolated (profile_company prof) (product_delete_view k req) d"
proof (cases "objects_get k (profile_company prof) (products d)")
  case None
  with assms(2) show ?thesis
    by (simp add: isolated_def product_delete_view_def product_not_found_def scoped_def
        foreign_rows_def objects_get_scoped mset_foreign_own del: mset_filter)
next
  case (Some p)
  with assms(2) show ?thesis
    by (simp add: isolated_def product_delete_view_def product_not_found_def scoped_def
        foreign_rows_def objects_get_scoped mset_foreign_own
        mset_delete_found[OF assms(1) Some] del: mset_filter)
qed

lemma isolated_inventory_op:
  assumes "wf_db d" and "userprofile req = Some prof"
  shows "isolated (profile_company prof) (inventory_op form disp op req) d"
proof (cases op)
  case OpList
  then show ?thesis
    by (simp add: inventory_list_def isolated_login_required isolated_list[OF assms(2)])
next
  case (OpDetail k)
  then show ?thesis
    by (simp add: product_detail_def isolated_login_required isolated_detail[OF assms])
next
  case OpAdd
  then show ?thesis
    by (simp add: product_add_def isolated_login_required isolated_add[OF assms(2)])
next
  case (OpIncrease k)
  then show ?thesis
    by (simp add: increase_stock_def isolated_login_required isolated_increase[OF assms])
next
  case (OpDecrease k)
  then show ?thesis
    by (simp add: decrease_stock_def isolated_login_required isolated_decrease[OF assms])
next
  case (OpDelete k)
  then show ?thesis
    by (simp add: product_delete_def isolated_login_required isolated_delete[OF assms])
qed

lemma objects_get_foreign:
  assumes "wf_db d" and "p \<in> set (products d)" and "company p \<noteq> c"
  shows "objects_get (pk p) c (products d) = None"
proof (cases "objects_get (pk p) c (products d)")
  case None
  then show ?thesis .
next
  case (Some r)
  from objects_get_SomeD[OF Some] have "r \<in> set (products d)" "pk r = pk p" "company r = c"
    by simp_all
  with assms key_owner[of "products d" p r] show ?thesis
    by (auto simp: wf_db_def)
qed

lemma objects_get_without:
  "objects_get k c (filter (\<lambda>r. pk r \<noteq> k) ps) = None"
  unfolding objects_get_def by (induction ps) auto

lemma foreign_key_absent:
  assumes "wf_db d" and "userprofile req = Some prof"
    and "p \<in> set (products d)" and "company p \<noteq> profile_company prof"
    and "target op = Some (pk p)"
  shows "store (inventory_op form disp op req d) = d
       \<and> response (inventory_op form disp op req d)
           = response (inventory_op form disp op req (without_pk (pk p) d))
       \<and> notices (inventory_op form disp op req d)
           = notices (inventory_op form disp op req (without_pk (pk p) d))"
  using assms(2,5) objects_get_foreign[OF assms(1,3,4)]
    objects_get_without[of "pk p" "profile_company prof" "products d"]
  by (cases op)
     (simp_all add: product_detail_def increase_stock_def decrease_stock_def product_delete_def
       login_required_def product_detail_view_def increase_stock_view_def
       decrease_stock_view_def product_delete_view_def json_failure_def product_not_found_def
       without_pk_def)

text \<open>
  C1. On a table with unique keys and for every acting profile, each of the inventory
  operations (list, detail and edit, add, delete, increase and decrease of stock) gives the
  response and the notices it would give on the rows of the profile's company alone, and
  leaves every row of any other company in the table as it was. If the key in the URL is
  that of a product of another company, the table is unchanged and the response and
  notices are those for a table from which that product has been removed.
\<close>

theorem tenant_isolation:
  assumes "wf_db d" and "userprofile req = Some prof"
  shows "isolated (profile_company prof) (inventory_op form disp op req) d
       \<and> (\<forall>p\<in>set (products d).
            target op = Some (pk p) \<and> company p \<noteq> profile_company prof \<longrightarrow>
              store (inventory_op form disp op req d) = d
            \<and> response (inventory_op form disp op req d)
                = response (inventory_op form disp op req (without_pk (pk p) d))
            \<and> notices (inventory_op form disp op req d)
                = notices (inventory_op form disp op req (without_pk (pk p) d)))"
  using isolated_inventory_op[OF assms] foreign_key_absent[OF assms]
  by blast

theorem tenant_isolation_witness:
  "store (inventory_op sample_form sample_disp (OpIncrease 4)
       (request_of ''POST'' (Some staff) [] []) sample_db) = sample_db
   \<and> response (inventory_op sample_form sample_disp (OpIncrease 4)
       (request_of ''POST'' (Some staff) [] []) sample_db)
     = JsonResponse [(''success'', JBool False), (''error'', JStr ''Product not found'')]
   \<and> response (inventory_op sample_form sample_disp OpList
       (request_of ''GET'' (Some staff) [] []) sample_db)
     = response (inventory_op sample_form sample_disp OpList
       (request_of ''GET'' (Some staff) [] []) (scoped 1 sample_db))"
proof -
  let ?post = "request_of ''POST'' (Some staff) [] []"
  let ?get = "request_of ''GET'' (Some staff) [] []"
  have wf: "wf_db sample_db"
    by (simp add: wf_db_def sample_db_def widget_def bolt_def gadget_def rival_def)
  have prof: "userprofile ?post = Some staff" "userprofile ?get = Some staff"
    by (simp_all add: request_of_def)
  have rival: "rival \<in> set (products sample_db)" "pk rival = 4"
    "company rival \<noteq> profile_company staff" "profile_company staff = 1"
    by (simp_all add: sample_db_def rival_def staff_def)
  have absent: "response (inventory_op sample_form sample_disp (OpIncrease 4) ?post
        (without_pk 4 sample_db))
      = JsonResponse [(''success'', JBool False), (''error'', JStr ''Product not found'')]"
    by (simp add: increase_stock_def login_required_def increase_stock_view_def
        request_of_def staff_def without_pk_def sample_db_def objects_get_def widget_def
        bolt_def gadget_def rival_def json_failure_def)
  from tenant_isolation[OF wf prof(1), of sample_form sample_disp "OpIncrease 4"] rival absent
  have "store (inventory_op sample_form sample_disp (OpIncrease 4) ?post sample_db) = sample_db
      \<and> response (inventory_op sample_form sample_disp (OpIncrease 4) ?post sample_db)
        = JsonResponse [(''success'', JBool False), (''error'', JStr ''Product not found'')]"
    by fastforce
  moreover from tenant_isolation[OF wf prof(2), of sample_form sample_disp OpList] rival(4)
  have "response (inventory_op sample_form sample_disp OpList ?get sample_db)
      = response (inventory_op sample_form sample_disp OpList ?get (scoped 1 sample_db))"
    by (simp add: isolated_def)
  ultimately show ?thesis by simp
qed

section \<open>Requests without a profile\<close>

text \<open>
  C3, as the code has it. For an authenticated account without a profile every inventory
  operation leaves the table unchanged and answers without looking at it: listing, detail
  (view and edit) and add queue \<open>User profile not found.\<close> and redirect to the dashboard;
  delete queues \<open>Product not found.\<close> and redirects to the inventory list; the two stock
  endpoints answer with the JSON failure body (\<open>Product not found\<close> for a POST,
  \<open>Invalid request\<close> otherwise) and do not redirect.
\<close>

theorem profile_missing_outcome:
  assumes "authenticated req" and "userprofile req = None"
  shows "inventory_op form disp op req d =
           (case op of
              OpList \<Rightarrow> profile_missing d
            | OpDetail k \<Rightarrow> profile_missing d
            | OpAdd \<Rightarrow> profile_missing d
            | OpIncrease k \<Rightarrow>
                json_failure (if http_method req = ''POST'' then ''Product not found''
                              else ''Invalid request'') d
            | OpDecrease k \<Rightarrow>
                json_failure (if http_method req = ''POST'' then ''Product not found''
                              else ''Invalid request'') d
            | OpDelete k \<Rightarrow> product_not_found d)
       \<and> store (inventory_op form disp op req d) = d
       \<and> response (inventory_op form disp op req d) = response (inventory_op form disp op req d')
       \<and> notices (inventory_op form disp op req d) = notices (inventory_op form disp op req d')"
  using assms
  by (cases op)
     (simp_all add: inventory_list_def product_detail_def product_add_def increase_stock_def
       decrease_stock_def product_delete_def login_required_def inventory_list_view_def
       product_detail_view_def product_add_view_def increase_stock_view_def
       decrease_stock_view_def product_delete_view_def profile_missing_def json_failure_def
       product_not_found_def)

theorem profile_missing_outcome_witness:
  "inventory_op sample_form sample_disp OpList (request_of ''GET'' None [] []) sample_db
     = profile_missing sample_db
   \<and> store (inventory_op sample_form sample_disp OpList (request_of ''GET'' None [] [])
        sample_db) = sample_db"
proof -
  let ?req = "request_of ''GET'' None [] []"
  have req: "authenticated ?req" "userprofile ?req = None"
    by (simp_all add: request_of_def)
  from profile_missing_outcome[OF req, of sample_form sample_disp OpList sample_db sample_db]
  show ?thesis by (simp add: profile_missing_def)
qed

text \<open>
  C3 as stated asks every operation to redirect with the missing-profile notice. A POST to
  \<open>increase_stock\<close> without a profile answers with the JSON failure body and queues no
  notice, and \<open>product_delete\<close> reports \<open>Product not found.\<close> on the inventory list.
\<close>

theorem profile_missing_counterexample:
  "authenticated (request_of ''POST'' None [] [])
   \<and> userprofile (request_of ''POST'' None [] []) = None
   \<and> response (inventory_op sample_form sample_disp (OpIncrease 1)
         (request_of ''POST'' None [] []) sample_db)
       = JsonResponse [(''success'', JBool False), (''error'', JStr ''Product not found'')]
   \<and> response (inventory_op sample_form sample_disp (OpIncrease 1)
         (request_of ''POST'' None [] []) sample_db) \<noteq> Redirect ''dashboard''
   \<and> notices (inventory_op sample_form sample_disp (OpIncrease 1)
         (request_of ''POST'' None [] []) sample_db) = []
   \<and> response (inventory_op sample_form sample_disp (OpDelete 1)
         (request_of ''POST'' None [] []) sample_db) = Redirect ''inventory_list''
   \<and> notices (inventory_op sample_form sample_disp (OpDelete 1)
         (request_of ''POST'' None [] []) sample_db) = [(ErrorMsg, ''Product not found.'')]"
  by (simp add: request_of_def increase_stock_def product_delete_def login_required_def
      increase_stock_view_def product_delete_view_def json_failure_def product_not_found_def)

section \<open>Adding a product\<close>

text \<open>
  C6. Whatever instance the form builds from the input, a successful add stores it under
  the next key with its company set to the company of the acting profile; two forms whose
  instances differ in the company alone lead to the same response and the same table.
\<close>

theorem product_add_company:
  assumes "authenticated req" and "userprofile req = Some prof"
    and "http_method req = ''POST''"
    and "form (POST req) (FILES req) None = Some np"
  shows "products (store (product_add form req d))
           = products d @ [np\<lparr>pk := next_pk d, company := profile_company prof\<rparr>]
       \<and> company (last (products (store (product_add form req d)))) = profile_company prof
       \<and> (form' (POST req) (FILES req) None = Some (np\<lparr>company := c'\<rparr>) \<longrightarrow>
            product_add form' req d = product_add form req d)"
  using assms
  by (simp add: product_add_def login_required_def product_add_view_def insert_product_def Let_def)

theorem product_add_company_witness:
  "products (store (product_add sample_form
       (request_of ''POST'' (Some staff) [] [(''item_name'', ''Nut''), (''company'', ''2'')])
       sample_db))
     = products sample_db
       @ [\<lparr>pk = 5, company = 1, item_name = ''Nut'', category = [], cost_price = 1,
            quantity = 1\<rparr>]"
proof -
  let ?req = "request_of ''POST'' (Some staff) [] [(''item_name'', ''Nut''), (''company'', ''2'')]"
  let ?np = "\<lparr>pk = 0, company = 2, item_name = ''Nut'', category = [], cost_price = 1,
               quantity = 1\<rparr>"
  have req: "authenticated ?req" "userprofile ?req = Some staff" "http_method ?req = ''POST''"
    by (simp_all add: request_of_def)
  have form: "sample_form (POST ?req) (FILES ?req) None = Some ?np"
    by (simp add: sample_form_def request_of_def get_param_def)
  from product_add_company[where form = sample_form and d = sample_db, OF req form]
  show ?thesis
    by (simp add: staff_def sample_db_def)
qed

text \<open>Every row that an add request leaves in the table was there before or belongs to the
  company of the acting profile.\<close>

lemma product_add_new_rows:
  assumes "userprofile req = Some prof"
  shows "\<forall>q\<in>set (products (store (product_add form req d))).
           q \<in> set (products d) \<or> company q = profile_company prof"
  using assms
  by (auto simp: product_add_def login_required_def product_add_view_def insert_product_def Let_def
      split: option.splits)

section \<open>Listing and search\<close>

text \<open>Sorting by price changes neither the rows that are shown nor their total.\<close>

lemma sum_list_insort_key:
  fixes f :: "'a \<Rightarrow> rat"
  shows "sum_list (map f (insort_key g x xs)) = f x + sum_list (map f xs)"
  by (induction xs) auto

lemma sum_list_sort_key:
  fixes f :: "'a \<Rightarrow> rat"
  shows "sum_list (map f (sort_key g xs)) = sum_list (map f xs)"
  by (induction xs) (auto simp: sum_list_insort_key)

lemma sum_list_order_products:
  fixes f :: "product \<Rightarrow> rat"
  shows "sum_list (map f (order_products cf ps)) = sum_list (map f ps)"
  by (simp add: order_products_def sum_list_sort_key)

lemma mset_order_products: "mset (order_products cf ps) = mset ps"
  by (simp add: order_products_def)

lemma visible_rows:
  "search_products q (filter_company c ps)
     = filter (\<lambda>p. company p = c \<and> (q = [] \<or> icontains q (item_name p) \<or> icontains q (category p))) ps"
  by (induction ps) (auto simp: search_products_def filter_company_def matches_search_def)

lemma icontains_iff:
  "icontains q t \<longleftrightarrow> (\<exists>pre post. map lower_char t = pre @ map lower_char q @ post)"
  by (simp add: icontains_def sublist_def)

lemma searched_rows:
  "search_products q (filter_company c ps)
     = (if q \<noteq> []
        then filter (\<lambda>p. icontains q (item_name p) \<or> icontains q (category p))
               (filter (\<lambda>p. company p = c) ps)
        else filter (\<lambda>p. company p = c) ps)"
  by (simp add: search_products_def filter_company_def matches_search_def[abs_def])

text \<open>
  C8. The listing shows, up to the order chosen by \<open>cost_filter\<close>, exactly the rows of
  the acting company that pass the search, and \<open>total_inventory_value\<close> is the sum of
  \<open>cost_price * quantity\<close> over these rows, whatever \<open>search\<close> and \<open>cost_filter\<close> are.
\<close>

theorem listing_total_value:
  assumes "authenticated req" and "userprofile req = Some prof"
  shows "let q = get_param (GET req) ''search'';
             visible = filter (\<lambda>p. company p = profile_company prof
                         \<and> (q = [] \<or> icontains q (item_name p) \<or> icontains q (category p)))
                         (products d)
         in \<exists>tpl ctx shown.
              response (inventory_list req d) = Render tpl ctx
            \<and> map_of ctx ''products'' = Some (CProducts shown)
            \<and> mset shown = mset visible
            \<and> map_of ctx ''total_inventory_value''
                = Some (CNum (\<Sum>p\<leftarrow>visible. cost_price p * of_int (quantity p)))"
  using assms
  unfolding Let_def visible_rows[symmetric]
  by (simp add: inventory_list_def login_required_def inventory_list_view_def Let_def
      sum_list_order_products mset_order_products total_value_def[abs_def])

theorem listing_total_value_witness:
  "map_of (context_of (response (inventory_list
       (request_of ''GET'' (Some owner) [(''search'', ''bolt'')] []) sample_db)))
     ''total_inventory_value'' = Some (CNum 5)"
proof -
  let ?req = "request_of ''GET'' (Some owner) [(''search'', ''bolt'')] []"
  have req: "authenticated ?req" "userprofile ?req = Some owner"
    by (simp_all add: request_of_def)
  have q: "get_param (GET ?req) ''search'' = ''bolt''"
    by (simp add: request_of_def get_param_def)
  have visible: "filter (\<lambda>p. company p = profile_company owner
        \<and> (''bolt'' = [] \<or> icontains ''bolt'' (item_name p) \<or> icontains ''bolt'' (category p)))
        (products sample_db) = [bolt]"
    by code_simp
  have total: "(\<Sum>p\<leftarrow>[bolt]. cost_price p * of_int (quantity p)) = 5"
    by (simp add: bolt_def)
  from listing_total_value[OF req, of sample_db] show ?thesis
    unfolding Let_def q visible total by (auto simp: context_of_def)
qed

text \<open>
  C9. With a non-empty search string the listing shows exactly the rows of the acting
  company whose name or whose category contains the string, case folded; with an empty
  search string it shows all rows of the company. Without a price order the rows come in
  the order of the table.
\<close>

theorem listing_search:
  assumes "authenticated req" and "userprofile req = Some prof"
  shows "let q = get_param (GET req) ''search'';
             own = filter (\<lambda>p. company p = profile_company prof) (products d);
             expected = (if q \<noteq> []
                         then filter (\<lambda>p. icontains q (item_name p) \<or> icontains q (category p)) own
                         else own)
         in \<exists>tpl ctx shown.
              response (inventory_list req d) = Render tpl ctx
            \<and> map_of ctx ''products'' = Some (CProducts shown)
            \<and> mset shown = mset expected
            \<and> (get_param (GET req) ''cost_filter'' \<noteq> ''low''
                 \<and> get_param (GET req) ''cost_filter'' \<noteq> ''high'' \<longrightarrow> shown = expected)"
  using assms
  unfolding Let_def searched_rows[symmetric]
  by (simp add: inventory_list_def login_required_def inventory_list_view_def Let_def
      mset_order_products order_products_def)

theorem listing_search_witness:
  "map_of (context_of (response (inventory_list
       (request_of ''GET'' (Some owner) [(''search'', ''wid'')] []) sample_db)))
     ''products'' = Some (CProducts [widget, bolt])"
proof -
  let ?req = "request_of ''GET'' (Some owner) [(''search'', ''wid'')] []"
  have req: "authenticated ?req" "userprofile ?req = Some owner"
    by (simp_all add: request_of_def)
  have q: "get_param (GET ?req) ''search'' = ''wid''"
    and cf: "get_param (GET ?req) ''cost_filter'' = []"
    by (simp_all add: request_of_def get_param_def)
  have expected: "filter (\<lambda>p. icontains ''wid'' (item_name p) \<or> icontains ''wid'' (category p))
        (filter (\<lambda>p. company p = profile_company owner) (products sample_db)) = [widget, bolt]"
    by code_simp
  from listing_search[OF req, of sample_db] show ?thesis
    unfolding Let_def q cf expected by (auto simp: context_of_def)
qed

section \<open>Role gating\<close>

text \<open>
  C4. For a profile with role \<open>staff\<close> and a product \<open>p\<close> of its own company: a POST to
  the detail view and any request to the delete view end with the access-denied notice, a
  redirect to the inventory list and the table unchanged. The permitted operations do
  their work: the listing renders the staff template with exactly the company's rows that
  pass the search and their total (so \<open>p\<close> itself when nothing is searched for); a GET of
  the detail view renders the staff template with \<open>p\<close>; a valid POST to add stores the
  product; a POST to \<open>increase_stock\<close> leaves \<open>p\<close> with one more, a POST to
  \<open>decrease_stock\<close> with one less (or unchanged at zero), both reporting the new row and
  touching no other key.
\<close>

theorem staff_edit_delete_denied:
  assumes "authenticated req" and "userprofile req = Some prof" and "role prof = ''staff''"
    and "objects_get k (profile_company prof) (products d) = Some p"
  shows "(http_method req = ''POST'' \<longrightarrow>
            product_detail form k req d =
              \<lparr>response = Redirect ''inventory_list'',
               notices = [(ErrorMsg, ''Access denied. Only business owners can edit products.'')],
               store = d\<rparr>)
       \<and> product_delete k req d =
            \<lparr>response = Redirect ''inventory_list'',
             notices = [(ErrorMsg, ''Access denied. Only business owners can delete products.'')],
             store = d\<rparr>
       \<and> (let q = get_param (GET req) ''search'';
               cf = get_param (GET req) ''cost_filter'';
               visible = filter (\<lambda>r. company r = profile_company prof
                           \<and> (q = [] \<or> icontains q (item_name r) \<or> icontains q (category r)))
                           (products d)
           in \<exists>shown.
                inventory_list req d =
                  \<lparr>response = Render ''inventory/inventory_list_staff.html''
                     [(''products'', CProducts shown), (''search_query'', CStr q),
                      (''cost_filter'', CStr cf), (''profile'', CProfile prof),
                      (''total_inventory_value'',
                       CNum (\<Sum>r\<leftarrow>visible. cost_price r * of_int (quantity r)))],
                   notices = [], store = d\<rparr>
              \<and> mset shown = mset visible
              \<and> (cf \<noteq> ''low'' \<and> cf \<noteq> ''high'' \<longrightarrow> shown = visible)
              \<and> (q = [] \<longrightarrow> p \<in> set shown))
       \<and> (http_method req \<noteq> ''POST'' \<longrightarrow>
            product_detail form k req d =
              \<lparr>response = Render ''inventory/product_detail_staff.html''
                 [(''form'', CForm (UnboundForm (Some p))), (''product'', CProduct p),
                  (''profile'', CProfile prof)],
               notices = [], store = d\<rparr>)
       \<and> (http_method req = ''POST'' \<longrightarrow>
            (\<forall>np. form (POST req) (FILES req) None = Some np \<longrightarrow>
               response (product_add form req d) = Redirect ''inventory_list''
             \<and> products (store (product_add form req d))
                 = products d @ [np\<lparr>pk := next_pk d, company := profile_company prof\<rparr>]))
       \<and> (http_method req = ''POST'' \<longrightarrow>
            map_of (json_of (response (increase_stock disp k req d))) ''success'' = Some (JBool True)
          \<and> objects_get k (profile_company prof) (products (store (increase_stock disp k req d)))
               = Some (p\<lparr>quantity := quantity p + 1\<rparr>)
          \<and> map_of (json_of (response (decrease_stock disp k req d))) ''success'' = Some (JBool True))
       \<and> (http_method req = ''POST'' \<longrightarrow>
            response (increase_stock disp k req d)
              = json_stock disp (p\<lparr>quantity := quantity p + 1\<rparr>)
          \<and> filter (\<lambda>r. pk r \<noteq> k) (products (store (increase_stock disp k req d)))
              = filter (\<lambda>r. pk r \<noteq> k) (products d)
          \<and> response (decrease_stock disp k req d)
              = json_stock disp
                  (p\<lparr>quantity := (if 0 < quantity p then quantity p - 1 else quantity p)\<rparr>)
          \<and> objects_get k (profile_company prof) (products (store (decrease_stock disp k req d)))
              = Some (p\<lparr>quantity := (if 0 < quantity p then quantity p - 1 else quantity p)\<rparr>)
          \<and> filter (\<lambda>r. pk r \<noteq> k) (products (store (decrease_stock disp k req d)))
              = filter (\<lambda>r. pk r \<noteq> k) (products d))"
proof -
  have staff: "role prof \<noteq> ''business_owner''"
    using assms(3) by simp
  note row = objects_get_SomeD[OF assms(4)]
  have edit: "http_method req = ''POST'' \<longrightarrow>
      product_detail form k req d =
        \<lparr>response = Redirect ''inventory_list'',
         notices = [(ErrorMsg, ''Access denied. Only business owners can edit products.'')],
         store = d\<rparr>"
    using assms(1,2,4) staff by (simp add: product_detail_def login_required_def product_detail_view_def)
  have del: "product_delete k req d =
        \<lparr>response = Redirect ''inventory_list'',
         notices = [(ErrorMsg, ''Access denied. Only business owners can delete products.'')],
         store = d\<rparr>"
    using assms(1,2,4) staff by (simp add: product_delete_def login_required_def product_delete_view_def)
  have list: "let q = get_param (GET req) ''search'';
               cf = get_param (GET req) ''cost_filter'';
               visible = filter (\<lambda>r. company r = profile_company prof
                           \<and> (q = [] \<or> icontains q (item_name r) \<or> icontains q (category r)))
                           (products d)
           in \<exists>shown.
                inventory_list req d =
                  \<lparr>response = Render ''inventory/inventory_list_staff.html''
                     [(''products'', CProducts shown), (''search_query'', CStr q),
                      (''cost_filter'', CStr cf), (''profile'', CProfile prof),
                      (''total_inventory_value'',
                       CNum (\<Sum>r\<leftarrow>visible. cost_price r * of_int (quantity r)))],
                   notices = [], store = d\<rparr>
              \<and> mset shown = mset visible
              \<and> (cf \<noteq> ''low'' \<and> cf \<noteq> ''high'' \<longrightarrow> shown = visible)
              \<and> (q = [] \<longrightarrow> p \<in> set shown)"
  proof -
    let ?q = "get_param (GET req) ''search''"
    let ?cf = "get_param (GET req) ''cost_filter''"
    let ?visible = "search_products ?q (filter_company (profile_company prof) (products d))"
    let ?shown = "order_products ?cf ?visible"
    have out: "inventory_list req d =
        \<lparr>response = Render ''inventory/inventory_list_staff.html''
           [(''products'', CProducts ?shown), (''search_query'', CStr ?q),
            (''cost_filter'', CStr ?cf), (''profile'', CProfile prof),
            (''total_inventory_value'',
             CNum (\<Sum>r\<leftarrow>?visible. cost_price r * of_int (quantity r)))],
         notices = [], store = d\<rparr>"
      using assms(1,2) staff
      by (simp add: inventory_list_def login_required_def inventory_list_view_def Let_def
          sum_list_order_products total_value_def[abs_def])
    have perm: "mset ?shown = mset ?visible"
      by (rule mset_order_products)
    have plain: "?cf \<noteq> ''low'' \<and> ?cf \<noteq> ''high'' \<longrightarrow> ?shown = ?visible"
      by (simp add: order_products_def)
    have "?q = [] \<longrightarrow> p \<in> set ?visible"
      using row by (simp add: search_products_def filter_company_def)
    then have mem: "?q = [] \<longrightarrow> p \<in> set ?shown"
      using perm by (metis mset_eq_setD)
    from out perm plain mem show ?thesis
      unfolding Let_def visible_rows[symmetric] by blast
  qed
  have view: "http_method req \<noteq> ''POST'' \<longrightarrow>
      product_detail form k req d =
        \<lparr>response = Render ''inventory/product_detail_staff.html''
           [(''form'', CForm (UnboundForm (Some p))), (''product'', CProduct p),
            (''profile'', CProfile prof)],
         notices = [], store = d\<rparr>"
    using assms(1,2,4) staff
    by (simp add: product_detail_def login_required_def product_detail_view_def detail_page_def)
  have add: "http_method req = ''POST'' \<longrightarrow>
      (\<forall>np. form (POST req) (FILES req) None = Some np \<longrightarrow>
         response (product_add form req d) = Redirect ''inventory_list''
       \<and> products (store (product_add form req d))
           = products d @ [np\<lparr>pk := next_pk d, company := profile_company prof\<rparr>])"
    using assms(1,2)
    by (simp add: product_add_def login_required_def product_add_view_def insert_product_def Let_def)
  have stock: "http_method req = ''POST'' \<longrightarrow>
      map_of (json_of (response (increase_stock disp k req d))) ''success'' = Some (JBool True)
    \<and> objects_get k (profile_company prof) (products (store (increase_stock disp k req d)))
         = Some (p\<lparr>quantity := quantity p + 1\<rparr>)
    \<and> map_of (json_of (response (decrease_stock disp k req d))) ''success'' = Some (JBool True)"
    using assms(1,2,4) row
    by (simp add: increase_stock_def decrease_stock_def login_required_def
        increase_stock_view_def decrease_stock_view_def Let_def json_of_def json_stock_def
        objects_get_save)
  have inc: "http_method req = ''POST'' \<longrightarrow>
      response (increase_stock disp k req d) = json_stock disp (p\<lparr>quantity := quantity p + 1\<rparr>)
    \<and> filter (\<lambda>r. pk r \<noteq> k) (products (store (increase_stock disp k req d)))
        = filter (\<lambda>r. pk r \<noteq> k) (products d)"
    using assms(1,2,4) row save_product_other[of "p\<lparr>quantity := quantity p + 1\<rparr>" "products d"]
    by (simp add: increase_stock_def login_required_def increase_stock_view_def Let_def)
  have dec: "http_method req = ''POST'' \<longrightarrow>
      response (decrease_stock disp k req d)
        = json_stock disp
            (p\<lparr>quantity := (if 0 < quantity p then quantity p - 1 else quantity p)\<rparr>)
    \<and> objects_get k (profile_company prof) (products (store (decrease_stock disp k req d)))
        = Some (p\<lparr>quantity := (if 0 < quantity p then quantity p - 1 else quantity p)\<rparr>)
    \<and> filter (\<lambda>r. pk r \<noteq> k) (products (store (decrease_stock disp k req d)))
        = filter (\<lambda>r. pk r \<noteq> k) (products d)"
    using assms(1,2,4) row save_product_other[of "p\<lparr>quantity := quantity p - 1\<rparr>" "products d"]
    by (simp add: decrease_stock_def login_required_def decrease_stock_view_def Let_def
        objects_get_save)
  from edit del list view add stock inc dec show ?thesis
    by blast
qed

theorem staff_edit_delete_denied_witness:
  "product_detail sample_form 1 (request_of ''POST'' (Some staff) [] []) sample_db =
     \<lparr>response = Redirect ''inventory_list'',
      notices = [(ErrorMsg, ''Access denied. Only business owners can edit products.'')],
      store = sample_db\<rparr>
   \<and> product_delete 1 (request_of ''POST'' (Some staff) [] []) sample_db =
     \<lparr>response = Redirect ''inventory_list'',
      notices = [(ErrorMsg, ''Access denied. Only business owners can delete products.'')],
      store = sample_db\<rparr>
   \<and> objects_get 1 1 (products (store
         (decrease_stock sample_disp 1 (request_of ''POST'' (Some staff) [] []) sample_db)))
       = Some (widget\<lparr>quantity := 3\<rparr>)
   \<and> objects_get 1 1 (products (store
         (increase_stock sample_disp 1 (request_of ''POST'' (Some staff) [] []) sample_db)))
       = Some (widget\<lparr>quantity := 5\<rparr>)"
proof -
  let ?req = "request_of ''POST'' (Some staff) [] []"
  have req: "authenticated ?req" "userprofile ?req = Some staff" "role staff = ''staff''"
    and post: "http_method ?req = ''POST''"
    by (simp_all add: request_of_def staff_def)
  have row: "objects_get 1 (profile_company staff) (products sample_db) = Some widget"
    by (simp add: staff_def sample_db_def objects_get_def widget_def)
  have q: "quantity widget = 4" "profile_company staff = 1"
    by (simp_all add: widget_def staff_def)
  from staff_edit_delete_denied[OF req row, of sample_form sample_disp] post q
  show ?thesis by simp
qed

section \<open>Registration checks\<close>

text \<open>
  The checks of \<open>register_view\<close> on a POST that carries \<open>password1\<close>: duplicate user name
  first, then the length of the password, then the confirmation; only when all three pass
  is \<open>create_user\<close> called.
\<close>

lemma register_view_checks:
  assumes "http_method req = ''POST''" and "POST req ''password1'' = Some p1"
  shows "register_view hasher nfkc req us =
     (if username_exists (POST req ''username'') us
      then register_error ''Username already exists. Please choose another.'' us
      else if length p1 < 8
      then register_error ''Password must be at least 8 characters long.'' us
      else if POST req ''password2'' \<noteq> Some p1
      then register_error ''Passwords do not match.'' us
      else (case POST req ''username'' of
              None \<Rightarrow> \<lparr>response = Raised ValueError, notices = [], store = us\<rparr>
            | Some n \<Rightarrow>
                if n = [] then \<lparr>response = Raised ValueError, notices = [], store = us\<rparr>
                else if list_ex (\<lambda>a. username a = nfkc n) us
                then \<lparr>response = Raised IntegrityError, notices = [], store = us\<rparr>
                else \<lparr>response = Redirect ''accounts:login'',
                      notices = [(SuccessMsg,
                        ''Account created successfully! You can now log in.'')],
                      store = us @ [\<lparr>username = nfkc n, password = hasher p1\<rparr>]\<rparr>))"
  using assms by (auto simp: register_view_def Let_def create_user_def split: option.splits)

text \<open>The number of accounts after any request: one more exactly on the success branch.\<close>

lemma register_view_accounts:
  "length (store (register_view hasher nfkc req us)) =
     (if http_method req = ''POST'' \<and> \<not> username_exists (POST req ''username'') us
         \<and> (\<exists>p1 n. POST req ''password1'' = Some p1 \<and> 8 \<le> length p1
               \<and> POST req ''password2'' = Some p1 \<and> POST req ''username'' = Some n \<and> n \<noteq> []
               \<and> \<not> list_ex (\<lambda>a. username a = nfkc n) us)
      then length us + 1 else length us)"
  by (auto simp: register_view_def Let_def create_user_def register_error_def
      split: option.splits)

text \<open>
  C5 at the input where it fails. An empty user name with two equal passwords of eight
  characters passes the duplicate, length and confirmation checks, yet no account is
  stored: \<open>create_user\<close> raises \<open>ValueError\<close> and the view has no check of its own for an
  empty user name.
\<close>

theorem register_empty_username_raises:
  "let req = request_of ''POST'' None []
        [(''username'', []), (''password1'', ''abcdefgh''), (''password2'', ''abcdefgh'')];
       out = register_view hasher nfkc req []
   in \<not> username_exists (POST req ''username'') []
    \<and> POST req ''password1'' = Some ''abcdefgh''
    \<and> \<not> length ''abcdefgh'' < 8
    \<and> POST req ''password1'' = POST req ''password2''
    \<and> response out = Raised ValueError
    \<and> notices out = []
    \<and> store out = []"
  by (simp add: Let_def register_view_def request_of_def username_exists_def create_user_def)

text \<open>
  C10. A POST without the field \<open>password1\<close> and with a user name that is not taken
  leaves \<open>register_view\<close> with the \<open>TypeError\<close> of \<open>len(None)\<close>: no notice, no redirect,
  no account.
\<close>

theorem register_missing_password_raises:
  assumes "http_method req = ''POST''"
    and "POST req ''password1'' = None"
    and "\<not> username_exists (POST req ''username'') us"
  shows "register_view hasher nfkc req us =
           \<lparr>response = Raised TypeError, notices = [], store = us\<rparr>"
  using assms by (simp add: register_view_def Let_def)

theorem register_missing_password_raises_witness:
  "register_view id id
     (request_of ''POST'' None [] [(''username'', ''alice''), (''password2'', ''longenough'')])
     [\<lparr>username = ''bob'', password = ''x''\<rparr>]
   = \<lparr>response = Raised TypeError, notices = [],
      store = [\<lparr>username = ''bob'', password = ''x''\<rparr>]\<rparr>"
  by (rule register_missing_password_raises)
     (simp_all add: request_of_def username_exists_def)

end
